theory Spec2Isabelle
  imports Complex_Main "HOL-Library.Sublist"
begin

section \<open>MVLib optional odometry integrations\<close>

text \<open>
  The two headers of \<^verbatim>\<open>include/mvlib/Optional\<close> each define one overload of
  \<^verbatim>\<open>mvlib::setOdom\<close>: it hands the logger a closure over the chassis pointer, and
  the logger calls that closure whenever it wants a pose. The first part of this theory
  embeds the closures and \<^verbatim>\<open>setOdom\<close>; the second part embeds the preprocessor
  guard at the top of both headers.
\<close>

subsection \<open>Values\<close>

text \<open>
  Modelled from the spec: \<^verbatim>\<open>mvlib::Pose\<close> is declared in \<^verbatim>\<open>mvlib/core.hpp\<close>, which
  is not among the sources. The headers build it positionally from three scalars,
  \<^verbatim>\<open>Pose{x, y, theta}\<close>; the spec names the fields x, y and heading.

  The type variable \<open>'a\<close> is the type \<^verbatim>\<open>float\<close> of the closures' locals and of the
  members of \<^verbatim>\<open>lemlib::Pose\<close>. A \<^verbatim>\<open>Pose\<close> is list-initialised from such values,
  and list-initialisation admits no narrowing conversion, so its fields hold them
  unchanged.
\<close>

record 'a Pose =
  pose_x :: 'a
  pose_y :: 'a
  pose_heading :: 'a

text \<open>
  \<^verbatim>\<open>lemlib::Pose\<close>, the value \<^verbatim>\<open>getPose()\<close> returns; the closure reads its members
  \<^verbatim>\<open>x\<close>, \<^verbatim>\<open>y\<close> and \<^verbatim>\<open>theta\<close>.
\<close>

record 'a lemlib_Pose =
  lp_x :: 'a
  lp_y :: 'a
  lp_theta :: 'a

subsection \<open>Pointers, objects and member calls\<close>

text \<open>
  A chassis pointer is null or the address of an object. The store maps the addresses of
  the live objects to their states; the embedding application owns it and may change it
  between two calls of the closure.
\<close>

type_synonym addr = nat

datatype ptr = nullptr | Ptr addr

type_synonym 'obj heap = "addr \<Rightarrow> 'obj option"

text \<open>
  What a call can end with besides a value: \<open>InvalidDeref\<close> is a member call through a
  null pointer or through the address of no live object (undefined behaviour in C++),
  \<open>Thrown e\<close> is an exception \<open>e\<close> leaving a member function of the chassis.
\<close>

datatype 'e fault = InvalidDeref | Thrown 'e

text \<open>
  The member functions of \<^verbatim>\<open>ez::Drive\<close> and \<^verbatim>\<open>lemlib::Chassis\<close> belong to
  third-party libraries, so they are parameters of the model: a member function takes the
  state of its object and gives a value or an exception, and the state it leaves the
  object in. \<open>call m p h\<close> is the call \<^verbatim>\<open>p->m()\<close> in the store \<open>h\<close>.
\<close>

type_synonym ('obj, 'e, 'v) member = "'obj \<Rightarrow> ('e + 'v) \<times> 'obj"

definition call :: "('obj, 'e, 'v) member \<Rightarrow> ptr \<Rightarrow> 'obj heap \<Rightarrow> ('e fault + 'v) \<times> 'obj heap" where
  "call m p h =
     (case p of
        nullptr \<Rightarrow> (Inl InvalidDeref, h)
      | Ptr a \<Rightarrow>
          (case h a of
             None \<Rightarrow> (Inl InvalidDeref, h)
           | Some d \<Rightarrow>
               (case m d of
                  (Inl e, d') \<Rightarrow> (Inl (Thrown e), h(a \<mapsto> d'))
                | (Inr v, d') \<Rightarrow> (Inr v, h(a \<mapsto> d')))))"

text \<open>
  Sequencing: the rest of the body runs on the value of a call, in the store the call
  left; a fault ends the body and propagates unchanged.
\<close>

definition and_then ::
  "('f + 'v) \<times> 's \<Rightarrow> ('v \<Rightarrow> 's \<Rightarrow> ('f + 'w) \<times> 's) \<Rightarrow> ('f + 'w) \<times> 's" where
  "and_then r k = (case r of (Inl f, s) \<Rightarrow> (Inl f, s) | (Inr v, s) \<Rightarrow> k v s)"

text \<open>
  The accessors of \<^verbatim>\<open>ez::Drive\<close> return values of a type \<open>'n\<close> of their own
  (EZ-Template declares them \<^verbatim>\<open>double\<close>); \<^verbatim>\<open>getPose()\<close> returns a
  \<^verbatim>\<open>lemlib::Pose\<close>, whose members are \<^verbatim>\<open>float\<close>.
\<close>

record ('obj, 'e, 'n) ez_Drive =
  odom_enabled :: "('obj, 'e, bool) member"
  odom_x_get :: "('obj, 'e, 'n) member"
  odom_y_get :: "('obj, 'e, 'n) member"
  odom_theta_get :: "('obj, 'e, 'n) member"

record ('obj, 'e, 'a) lemlib_Chassis =
  getPose :: "('obj, 'e, 'a lemlib_Pose) member"

subsection \<open>The closures\<close>

text \<open>
  The result of one call of a closure: \<open>Inr None\<close> is \<^verbatim>\<open>std::nullopt\<close>,
  \<open>Inr (Some p)\<close> an engaged optional, \<open>Inl f\<close> a fault.
\<close>

type_synonym ('obj, 'e, 'a) poseGetter = "'obj heap \<Rightarrow> ('e fault + 'a Pose option) \<times> 'obj heap"

text \<open>
  The closure of \<^verbatim>\<open>logger_optional_ez-template.hpp\<close>, lines 16 to 24, with the
  captured pointer as an argument. \<^verbatim>\<open>||\<close> evaluates its right operand only when
  \<^verbatim>\<open>!chassis\<close> is false. Lines 19 to 21 initialise \<^verbatim>\<open>const float\<close> locals from
  the accessors' results: \<open>to_float\<close> is the implicit conversion C++ applies there, from
  the accessors' return type to \<^verbatim>\<open>float\<close>. It is a parameter, since the return type
  is declared in \<^verbatim>\<open>EZ-Template/api.hpp\<close>.
\<close>

definition ez_poseGetter ::
  "('n \<Rightarrow> 'a) \<Rightarrow> ('obj, 'e, 'n) ez_Drive \<Rightarrow> ptr \<Rightarrow> ('obj, 'e, 'a) poseGetter" where
  "ez_poseGetter to_float api chassis h =
     (if chassis = nullptr then (Inr None, h)
      else and_then (call (odom_enabled api) chassis h) (\<lambda>enabled h1.
        if \<not> enabled then (Inr None, h1)
        else and_then (call (odom_x_get api) chassis h1) (\<lambda>x h2.
             let xIn = to_float x in
             and_then (call (odom_y_get api) chassis h2) (\<lambda>y h3.
             let yIn = to_float y in
             and_then (call (odom_theta_get api) chassis h3) (\<lambda>th h4.
             let thDeg = to_float th in
               (Inr (Some \<lparr>pose_x = xIn, pose_y = yIn, pose_heading = thDeg\<rparr>), h4))))))"

text \<open>The closure of the LemLib header (\<^verbatim>\<open>src/unnamed/part_000\<close>), lines 18 to 22.\<close>

definition lemlib_poseGetter :: "('obj, 'e, 'a) lemlib_Chassis \<Rightarrow> ptr \<Rightarrow> ('obj, 'e, 'a) poseGetter" where
  "lemlib_poseGetter api chassis h =
     (if chassis = nullptr then (Inr None, h)
      else and_then (call (getPose api) chassis h) (\<lambda>p h1.
        (Inr (Some \<lparr>pose_x = lp_x p, pose_y = lp_y p, pose_heading = lp_theta p\<rparr>), h1)))"

subsection \<open>The logger and setOdom\<close>

text \<open>
  Modelled from the spec: \<^verbatim>\<open>mvlib::Logger\<close> and its member \<^verbatim>\<open>setPoseGetter\<close> are
  declared in \<^verbatim>\<open>mvlib/core.hpp\<close>, which is not among the sources. The spec gives the
  logger one slot for its pose-retrieval callback; \<^verbatim>\<open>setPoseGetter\<close> registers the
  callable it is given there and does not call it, so it returns without a fault and
  leaves the store alone. The other members of the logger are the extension of the
  record.
\<close>

record ('obj, 'e, 'a) Logger =
  poseGetter :: "('obj, 'e, 'a) poseGetter option"

definition setPoseGetter ::
  "('obj, 'e, 'a, 'z) Logger_scheme \<Rightarrow> ('obj, 'e, 'a) poseGetter \<Rightarrow> 'obj heap \<Rightarrow>
   ('e fault + ('obj, 'e, 'a, 'z) Logger_scheme) \<times> 'obj heap" where
  "setPoseGetter logger g h = (Inr (logger\<lparr>poseGetter := Some g\<rparr>), h)"

text \<open>
  \<^verbatim>\<open>setOdom(Logger&, ez::Drive*)\<close> and \<^verbatim>\<open>setOdom(Logger&, lemlib::Chassis*)\<close>, run
  in a store: the logger is passed by reference, so the model returns it updated, with
  the store the call leaves. The body is the one call of \<^verbatim>\<open>setPoseGetter\<close> on the
  closure that captures the pointer by value.
\<close>

definition ez_setOdom ::
  "('n \<Rightarrow> 'a) \<Rightarrow> ('obj, 'e, 'n) ez_Drive \<Rightarrow> ('obj, 'e, 'a, 'z) Logger_scheme \<Rightarrow> ptr \<Rightarrow>
   'obj heap \<Rightarrow> ('e fault + ('obj, 'e, 'a, 'z) Logger_scheme) \<times> 'obj heap" where
  "ez_setOdom to_float api logger chassis h =
     setPoseGetter logger (ez_poseGetter to_float api chassis) h"

definition lemlib_setOdom ::
  "('obj, 'e, 'a) lemlib_Chassis \<Rightarrow> ('obj, 'e, 'a, 'z) Logger_scheme \<Rightarrow> ptr \<Rightarrow>
   'obj heap \<Rightarrow> ('e fault + ('obj, 'e, 'a, 'z) Logger_scheme) \<times> 'obj heap" where
  "lemlib_setOdom api logger chassis h =
     setPoseGetter logger (lemlib_poseGetter api chassis) h"

subsection \<open>Back-ends that only read\<close>

text \<open>
  A member function is read-only when it leaves its object as it found it. The spec calls
  the member functions the closures use the back-end's read accessors; the properties
  that need this say so with these predicates.
\<close>

definition read_only :: "('obj, 'e, 'v) member \<Rightarrow> bool" where
  "read_only m = (\<forall>d. snd (m d) = d)"

definition ez_read_only :: "('obj, 'e, 'n) ez_Drive \<Rightarrow> bool" where
  "ez_read_only api =
     (read_only (odom_enabled api) \<and> read_only (odom_x_get api) \<and>
      read_only (odom_y_get api) \<and> read_only (odom_theta_get api))"

definition lemlib_read_only :: "('obj, 'e, 'a) lemlib_Chassis \<Rightarrow> bool" where
  "lemlib_read_only api = read_only (getPose api)"

text \<open>
  Two example back-ends, for the concrete runs below. The classes \<^verbatim>\<open>ez::Drive\<close> and
  \<^verbatim>\<open>lemlib::Chassis\<close> are third-party code; the spec describes a back-end as an
  object holding a readiness flag and a pose estimate in inches and degrees, with
  accessors that report them. These two do exactly that, and never throw.
\<close>

record 'n ez_odom =
  odom_on :: bool
  odom_x :: 'n
  odom_y :: 'n
  odom_theta :: 'n

definition ez_reads :: "('n ez_odom, unit, 'n) ez_Drive" where
  "ez_reads =
     \<lparr>odom_enabled = (\<lambda>d. (Inr (odom_on d), d)),
      odom_x_get = (\<lambda>d. (Inr (odom_x d), d)),
      odom_y_get = (\<lambda>d. (Inr (odom_y d), d)),
      odom_theta_get = (\<lambda>d. (Inr (odom_theta d), d))\<rparr>"

definition lemlib_reads :: "('a lemlib_Pose, unit, 'a) lemlib_Chassis" where
  "lemlib_reads = \<lparr>getPose = (\<lambda>d. (Inr d, d))\<rparr>"

subsection \<open>Double to float\<close>

text \<open>
  The conversion from \<^verbatim>\<open>double\<close> to \<^verbatim>\<open>float\<close> for the concrete runs, on finite
  values taken as real numbers: \<^verbatim>\<open>float\<close> is IEEE 754 binary32, with a significand
  of 24 bits and exponents from -126 up, and the conversion rounds to the nearest
  \<^verbatim>\<open>float\<close>, a tie going to the even significand. \<open>float_exponent x\<close> is the exponent
  of the binade of \<open>x\<close>, and \<open>pow2 (float_exponent x - 23)\<close> the distance between
  neighbouring floats there. Magnitudes from \<open>2 ^ 128\<close> on, infinities and NaN have no
  real number for their result; the runs below stay far from them.
\<close>

definition round_even :: "real \<Rightarrow> int" where
  "round_even q =
     (let f = \<lfloor>q\<rfloor>; r = q - of_int f
      in if r < 1 / 2 then f else if 1 / 2 < r then f + 1 else if even f then f else f + 1)"

definition pow2 :: "int \<Rightarrow> real" where
  "pow2 k = (if 0 \<le> k then 2 ^ nat k else 1 / 2 ^ nat (- k))"

definition float_exponent :: "real \<Rightarrow> int" where
  "float_exponent x = max (- 126) \<lfloor>log 2 \<bar>x\<bar>\<rfloor>"

definition to_float32 :: "real \<Rightarrow> real" where
  "to_float32 x =
     (if x = 0 then 0
      else let u = pow2 (float_exponent x - 23) in of_int (round_even (x / u)) * u)"

text \<open>
  The back-end states of the spec's example scenarios: x = 10.0 in, y = -5.0 in,
  theta = 90.0 deg, with odometry enabled and with odometry disabled; and a state whose
  x is \<open>2 ^ 24 + 1\<close>, a \<^verbatim>\<open>double\<close> that is not a \<^verbatim>\<open>float\<close>.
\<close>

definition ready_ez :: "real ez_odom" where
  "ready_ez = \<lparr>odom_on = True, odom_x = 10, odom_y = - 5, odom_theta = 90\<rparr>"

definition not_ready_ez :: "real ez_odom" where
  "not_ready_ez = \<lparr>odom_on = False, odom_x = 10, odom_y = - 5, odom_theta = 90\<rparr>"


definition lemlib_at :: "real lemlib_Pose" where
  "lemlib_at = \<lparr>lp_x = 10, lp_y = - 5, lp_theta = 90\<rparr>"

section \<open>The guard against two integrations\<close>

text \<open>
  Both headers open with \<^verbatim>\<open>#pragma once\<close>, an \<^verbatim>\<open>#ifdef\<close> block holding an
  \<^verbatim>\<open>#error\<close>, and an \<^verbatim>\<open>#ifndef\<close> block that defines the macro and holds the rest
  of the file. The headers are embedded as lists of directives, and the preprocessor as
  an interpreter of such lists.
\<close>

datatype directive =
    PragmaOnce
  | Ifdef string "directive list"
  | Ifndef string "directive list"
  | Define string
  | Error string
  | Include string
  | Text string

text \<open>
  What a translation unit holds after preprocessing: the library headers it pulled in and
  the declarations it kept.
\<close>

datatype item = Included string | Declared string

text \<open>
  A diagnostic of the compiler: the file whose directive raised it, and its text.
\<close>

type_synonym diagnostic = "string \<times> string"

text \<open>
  The state of the preprocessor inside one translation unit: the macros defined so far,
  the files that have announced \<^verbatim>\<open>#pragma once\<close>, the output so far, and the
  diagnostics raised so far.
\<close>

record pp_state =
  defined :: "string set"
  once :: "string set"
  emitted :: "item list"
  diagnostics :: "diagnostic list"

text \<open>
  \<open>pp f ds s\<close> processes the directives \<open>ds\<close> of the file \<open>f\<close>. \<^verbatim>\<open>#error\<close> raises a
  diagnostic located in \<open>f\<close>; the compiler goes on with the rest of the unit, which is
  ill-formed from then on. An \<^verbatim>\<open>#include\<close> of a library header
  (\<^verbatim>\<open>mvlib/core.hpp\<close>, \<^verbatim>\<open>EZ-Template/api.hpp\<close>, \<^verbatim>\<open>lemlib/api.hpp\<close>,
  \<^verbatim>\<open><optional>\<close>) is recorded and not followed: those files are not among the
  sources, and they are taken not to define the guard macro.
\<close>

fun pp :: "string \<Rightarrow> directive list \<Rightarrow> pp_state \<Rightarrow> pp_state" where
  "pp f [] s = s"
| "pp f (PragmaOnce # ds) s = pp f ds (s\<lparr>once := insert f (once s)\<rparr>)"
| "pp f (Ifdef m body # ds) s = (if m \<in> defined s then pp f ds (pp f body s) else pp f ds s)"
| "pp f (Ifndef m body # ds) s = (if m \<notin> defined s then pp f ds (pp f body s) else pp f ds s)"
| "pp f (Define m # ds) s = pp f ds (s\<lparr>defined := insert m (defined s)\<rparr>)"
| "pp f (Error msg # ds) s = pp f ds (s\<lparr>diagnostics := diagnostics s @ [(f, msg)]\<rparr>)"
| "pp f (Include p # ds) s = pp f ds (s\<lparr>emitted := emitted s @ [Included p]\<rparr>)"
| "pp f (Text t # ds) s = pp f ds (s\<lparr>emitted := emitted s @ [Declared t]\<rparr>)"

text \<open>A header is its path and its directives.\<close>

type_synonym header = "string \<times> directive list"

definition ez_setOdom_decl :: string where
  "ez_setOdom_decl = ''inline void mvlib::setOdom(Logger& logger, ez::Drive* chassis)''"

definition lemlib_setOdom_decl :: string where
  "lemlib_setOdom_decl = ''inline void mvlib::setOdom(Logger &logger, lemlib::Chassis* chassis)''"

text \<open>\<^verbatim>\<open>logger_optional_ez-template.hpp\<close>, lines 1 to 27.\<close>

definition ez_template_hpp :: header where
  "ez_template_hpp =
     (''mvlib/Optional/logger_optional_ez-template.hpp'',
      [PragmaOnce,
       Ifdef ''_MVLIB_OPTIONAL_USED''
         [Error ''More than one type of Logger/Optional include used!''],
       Ifndef ''_MVLIB_OPTIONAL_USED''
         [Define ''_MVLIB_OPTIONAL_USED'',
          Include ''mvlib/core.hpp'',
          Include ''EZ-Template/api.hpp'',
          Include ''optional'',
          Text ez_setOdom_decl]])"

text \<open>
  The LemLib header, lines 1 to 25. Its name is not known; it is a file of its own, so
  its path differs from the other header's.
\<close>

definition lemlib_hpp :: header where
  "lemlib_hpp =
     (''unnamed/part_000'',
      [PragmaOnce,
       Ifdef ''_MVLIB_OPTIONAL_USED''
         [Error ''More than one type of Logger/Optional include used!''],
       Ifndef ''_MVLIB_OPTIONAL_USED''
         [Define ''_MVLIB_OPTIONAL_USED'',
          Include ''mvlib/core.hpp'',
          Include ''lemlib/api.hpp'',
          Text lemlib_setOdom_decl]])"

text \<open>
  \<^verbatim>\<open>#include\<close> of one of the two headers: a file that has announced
  \<^verbatim>\<open>#pragma once\<close> in this translation unit is skipped.
\<close>

fun include_file :: "header \<Rightarrow> pp_state \<Rightarrow> pp_state" where
  "include_file (f, ds) s = (if f \<in> once s then s else pp f ds s)"

text \<open>
  A translation unit, as far as the guard sees it, is the sequence of integration headers
  it includes. Preprocessing starts with no macro defined; the unit compiles when no
  diagnostic was raised, and fails with its diagnostics otherwise.
\<close>

fun translation_unit :: "header list \<Rightarrow> pp_state \<Rightarrow> pp_state" where
  "translation_unit [] s = s"
| "translation_unit (hdr # hs) s = translation_unit hs (include_file hdr s)"

definition initial :: pp_state where
  "initial = \<lparr>defined = {}, once = {}, emitted = [], diagnostics = []\<rparr>"

definition preprocess :: "header list \<Rightarrow> diagnostic list + pp_state" where
  "preprocess hs =
     (let s = translation_unit hs initial
      in if diagnostics s = [] then Inr s else Inl (diagnostics s))"

text \<open>
  A program is built from several translation units, each preprocessed on its own from
  the initial state: a macro defined in one is not defined in the next. The build fails
  with the diagnostics of the first unit that fails; otherwise it gives the output of
  every unit.
\<close>

fun build :: "header list list \<Rightarrow> diagnostic list + item list list" where
  "build [] = Inr []"
| "build (tu # tus) =
     (case preprocess tu of
        Inl e \<Rightarrow> Inl e
      | Inr s \<Rightarrow> (case build tus of Inl e \<Rightarrow> Inl e | Inr outs \<Rightarrow> Inr (emitted s # outs)))"

text \<open>The \<^verbatim>\<open>setOdom\<close> overloads a preprocessed unit declares.\<close>

fun declared :: "item list \<Rightarrow> string list" where
  "declared [] = []"
| "declared (Declared t # is) = t # declared is"
| "declared (Included p # is) = declared is"

text \<open>
  A text names an integration when the name of its library, as the header's
  \<^verbatim>\<open>#include\<close> line spells it, occurs in it, upper and lower case taken as equal. A
  diagnostic names an integration when its file name or its message does.
\<close>

definition lower :: "char \<Rightarrow> char" where
  "lower c = (let n = (of_char c :: nat) in if 65 \<le> n \<and> n \<le> 90 then char_of (n + 32) else c)"

definition names :: "string \<Rightarrow> string \<Rightarrow> bool" where
  "names msg lib = sublist (map lower lib) (map lower msg)"

fun diagnostic_names :: "diagnostic \<Rightarrow> string \<Rightarrow> bool" where
  "diagnostic_names (f, msg) lib = (names f lib \<or> names msg lib)"

definition ez_template_name :: string where
  "ez_template_name = ''EZ-Template''"

definition lemlib_name :: string where
  "lemlib_name = ''lemlib''"

text \<open>
  The message of the \<^verbatim>\<open>#error\<close> directive, the same in both headers.
\<close>

definition guard_message :: string where
  "guard_message = ''More than one type of Logger/Optional include used!''"

text \<open>
  The states of the preprocessor after the first inclusion of each header in a translation
  unit, and after the inclusion of the other header that follows it; the proofs below
  name them.
\<close>

definition after_ez :: pp_state where
  "after_ez =
     \<lparr>defined = {''_MVLIB_OPTIONAL_USED''},
      once = {''mvlib/Optional/logger_optional_ez-template.hpp''},
      emitted = [Included ''mvlib/core.hpp'', Included ''EZ-Template/api.hpp'',
                 Included ''optional'', Declared ez_setOdom_decl],
      diagnostics = []\<rparr>"

definition after_lemlib :: pp_state where
  "after_lemlib =
     \<lparr>defined = {''_MVLIB_OPTIONAL_USED''},
      once = {''unnamed/part_000''},
      emitted = [Included ''mvlib/core.hpp'', Included ''lemlib/api.hpp'',
                 Declared lemlib_setOdom_decl],
      diagnostics = []\<rparr>"

definition ez_then_lemlib :: pp_state where
  "ez_then_lemlib =
     after_ez\<lparr>once := insert ''unnamed/part_000'' (once after_ez),
              diagnostics := [(''unnamed/part_000'', guard_message)]\<rparr>"

definition lemlib_then_ez :: pp_state where
  "lemlib_then_ez =
     after_lemlib\<lparr>once := insert ''mvlib/Optional/logger_optional_ez-template.hpp'' (once after_lemlib),
                  diagnostics := [(''mvlib/Optional/logger_optional_ez-template.hpp'', guard_message)]\<rparr>"

section \<open>Properties of the closures\<close>

subsection \<open>Member calls and sequencing\<close>

lemma call_live:
  "h a = Some d \<Longrightarrow> m d = (Inr v, d') \<Longrightarrow> call m (Ptr a) h = (Inr v, h(a \<mapsto> d'))"
  by (simp add: call_def)

lemma call_other: "p \<noteq> Ptr b \<Longrightarrow> snd (call m p h) b = h b"
  by (auto simp: call_def split: ptr.splits option.splits prod.splits sum.splits)

lemma call_read_only:
  assumes "read_only m"
  shows "snd (call m p h) = h"
proof (cases p)
  case nullptr
  then show ?thesis by (simp add: call_def)
next
  case (Ptr a)
  show ?thesis
  proof (cases "h a")
    case None
    with Ptr show ?thesis by (simp add: call_def)
  next
    case (Some d)
    obtain r d' where md: "m d = (r, d')" by (cases "m d")
    from assms have "snd (m d) = d" by (simp add: read_only_def)
    with md have "d' = d" by simp
    with Some have "h(a \<mapsto> d') = h" by (simp add: map_upd_triv)
    with Ptr Some md show ?thesis by (cases r) (simp_all add: call_def)
  qed
qed

lemma call_other_from:
  "p \<noteq> Ptr b \<Longrightarrow> s b = h b \<Longrightarrow> snd (call m p s) b = h b"
  using call_other [of p b m s] by simp

lemma and_then_frame:
  assumes "snd r = s" and "\<And>v. snd (k v s) = s"
  shows "snd (and_then r k) = s"
proof -
  obtain x s' where r: "r = (x, s')" by (cases r)
  with assms(1) have "s' = s" by simp
  with r assms(2) show ?thesis by (cases x) (simp_all add: and_then_def)
qed

lemma and_then_other:
  assumes "snd r b = h b" and "\<And>v s. s b = h b \<Longrightarrow> snd (k v s) b = h b"
  shows "snd (and_then r k) b = h b"
proof -
  obtain x s' where r: "r = (x, s')" by (cases r)
  with assms show ?thesis by (cases x) (simp_all add: and_then_def)
qed

lemma call_Inr:
  assumes "call m p h = (Inr v, h')"
  obtains a d d' where "p = Ptr a" "h a = Some d" "m d = (Inr v, d')" "h' = h(a \<mapsto> d')"
  using assms
  by (auto simp: call_def split: ptr.splits option.splits prod.splits sum.splits)

lemma and_then_Inr:
  assumes "and_then r k = (Inr w, s')"
  obtains v s where "r = (Inr v, s)" "k v s = (Inr w, s')"
  using assms
  by (auto simp: and_then_def split: prod.splits sum.splits)


subsection \<open>The EZ-Template closure with its locals inlined\<close>

lemma ez_poseGetter_inlined:
  "ez_poseGetter cv api chassis h =
     (if chassis = nullptr then (Inr None, h)
      else and_then (call (odom_enabled api) chassis h) (\<lambda>enabled h1.
        if \<not> enabled then (Inr None, h1)
        else and_then (call (odom_x_get api) chassis h1) (\<lambda>x h2.
             and_then (call (odom_y_get api) chassis h2) (\<lambda>y h3.
             and_then (call (odom_theta_get api) chassis h3) (\<lambda>th h4.
               (Inr (Some \<lparr>pose_x = cv x, pose_y = cv y, pose_heading = cv th\<rparr>), h4))))))"
  unfolding ez_poseGetter_def Let_def by (rule refl)

subsection \<open>What a call of a closure does to the store\<close>

lemma ez_frame:
  assumes "ez_read_only api"
  shows "snd (ez_poseGetter cv api p h) = h"
proof -
  from assms have ro: "read_only (odom_enabled api)" "read_only (odom_x_get api)"
    "read_only (odom_y_get api)" "read_only (odom_theta_get api)"
    by (simp_all add: ez_read_only_def)
  show ?thesis
    unfolding ez_poseGetter_inlined
    by (simp add: and_then_frame call_read_only ro)
qed

lemma lemlib_frame:
  assumes "lemlib_read_only api"
  shows "snd (lemlib_poseGetter api p h) = h"
  using assms unfolding lemlib_poseGetter_def lemlib_read_only_def
  by (simp add: and_then_frame call_read_only)

lemma ez_other:
  assumes "p \<noteq> Ptr b"
  shows "snd (ez_poseGetter cv api p h) b = h b"
  unfolding ez_poseGetter_inlined
  by (simp add: and_then_other call_other_from assms)

lemma lemlib_other:
  assumes "p \<noteq> Ptr b"
  shows "snd (lemlib_poseGetter api p h) b = h b"
  unfolding lemlib_poseGetter_def
  by (simp add: and_then_other call_other_from assms)

subsection \<open>What a call of a closure returns\<close>

lemma ez_null: "ez_poseGetter cv api nullptr h = (Inr None, h)"
  by (simp add: ez_poseGetter_def)

lemma lemlib_null: "lemlib_poseGetter api nullptr h = (Inr None, h)"
  by (simp add: lemlib_poseGetter_def)

lemma ez_not_ready:
  assumes "h a = Some d" and "odom_enabled api d = (Inr False, d1)"
  shows "ez_poseGetter cv api (Ptr a) h = (Inr None, h(a \<mapsto> d1))"
proof -
  have "call (odom_enabled api) (Ptr a) h = (Inr False, h(a \<mapsto> d1))"
    using assms by (rule call_live)
  then show ?thesis by (simp add: ez_poseGetter_def and_then_def)
qed

lemma ez_ready:
  assumes "h a = Some d" and "odom_enabled api d = (Inr True, d1)"
    and "odom_x_get api d1 = (Inr xv, d2)" and "odom_y_get api d2 = (Inr yv, d3)"
    and "odom_theta_get api d3 = (Inr tv, d4)"
  shows "ez_poseGetter cv api (Ptr a) h =
    (Inr (Some \<lparr>pose_x = cv xv, pose_y = cv yv, pose_heading = cv tv\<rparr>), h(a \<mapsto> d4))"
proof -
  have c1: "call (odom_enabled api) (Ptr a) h = (Inr True, h(a \<mapsto> d1))"
    using assms(1,2) by (rule call_live)
  have c2: "call (odom_x_get api) (Ptr a) (h(a \<mapsto> d1)) = (Inr xv, h(a \<mapsto> d2))"
    using call_live [of "h(a \<mapsto> d1)" a d1 "odom_x_get api" xv d2] assms(3) by simp
  have c3: "call (odom_y_get api) (Ptr a) (h(a \<mapsto> d2)) = (Inr yv, h(a \<mapsto> d3))"
    using call_live [of "h(a \<mapsto> d2)" a d2 "odom_y_get api" yv d3] assms(4) by simp
  have c4: "call (odom_theta_get api) (Ptr a) (h(a \<mapsto> d3)) = (Inr tv, h(a \<mapsto> d4))"
    using call_live [of "h(a \<mapsto> d3)" a d3 "odom_theta_get api" tv d4] assms(5) by simp
  show ?thesis
    by (simp add: ez_poseGetter_inlined and_then_def c1 c2 c3 c4)
qed

lemma ez_dangling:
  assumes "h a = None"
  shows "ez_poseGetter cv api (Ptr a) h = (Inl InvalidDeref, h)"
  using assms by (simp add: ez_poseGetter_def and_then_def call_def)

lemma lemlib_live:
  assumes "h a = Some c" and "getPose api c = (Inr lp, c1)"
  shows "lemlib_poseGetter api (Ptr a) h =
    (Inr (Some \<lparr>pose_x = lp_x lp, pose_y = lp_y lp, pose_heading = lp_theta lp\<rparr>), h(a \<mapsto> c1))"
proof -
  have "call (getPose api) (Ptr a) h = (Inr lp, h(a \<mapsto> c1))"
    using assms by (rule call_live)
  then show ?thesis by (simp add: lemlib_poseGetter_def and_then_def)
qed

lemma lemlib_dangling:
  assumes "h a = None"
  shows "lemlib_poseGetter api (Ptr a) h = (Inl InvalidDeref, h)"
  using assms by (simp add: lemlib_poseGetter_def and_then_def call_def)

subsection \<open>What a result says about the back-end\<close>

lemma ez_Some:
  assumes "ez_poseGetter cv api p h = (Inr (Some ps), h')"
  shows "\<exists>a d d1 xv d2 yv d3 tv d4. p = Ptr a \<and> h a = Some d \<and>
      odom_enabled api d = (Inr True, d1) \<and> odom_x_get api d1 = (Inr xv, d2) \<and>
      odom_y_get api d2 = (Inr yv, d3) \<and> odom_theta_get api d3 = (Inr tv, d4) \<and>
      ps = \<lparr>pose_x = cv xv, pose_y = cv yv, pose_heading = cv tv\<rparr> \<and> h' = h(a \<mapsto> d4)"
proof -
  from assms have nn: "p \<noteq> nullptr"
    by (auto simp: ez_poseGetter_def)
  with assms obtain en h1 where
    c1: "call (odom_enabled api) p h = (Inr en, h1)" and
    r1: "(if \<not> en then (Inr None, h1)
          else and_then (call (odom_x_get api) p h1) (\<lambda>x h2.
               and_then (call (odom_y_get api) p h2) (\<lambda>y h3.
               and_then (call (odom_theta_get api) p h3) (\<lambda>th h4.
                 (Inr (Some \<lparr>pose_x = cv x, pose_y = cv y, pose_heading = cv th\<rparr>), h4))))) =
         (Inr (Some ps), h')"
    by (auto simp: ez_poseGetter_inlined elim: and_then_Inr)
  from r1 have en: "en" by (auto split: if_splits)
  with r1 obtain xv h2 where
    c2: "call (odom_x_get api) p h1 = (Inr xv, h2)" and
    r2: "and_then (call (odom_y_get api) p h2) (\<lambda>y h3.
         and_then (call (odom_theta_get api) p h3) (\<lambda>th h4.
           (Inr (Some \<lparr>pose_x = cv xv, pose_y = cv y, pose_heading = cv th\<rparr>), h4))) =
         (Inr (Some ps), h')"
    by (auto elim: and_then_Inr)
  from r2 obtain yv h3 where
    c3: "call (odom_y_get api) p h2 = (Inr yv, h3)" and
    r3: "and_then (call (odom_theta_get api) p h3) (\<lambda>th h4.
           (Inr (Some \<lparr>pose_x = cv xv, pose_y = cv yv, pose_heading = cv th\<rparr>), h4)) =
         (Inr (Some ps), h')"
    by (auto elim: and_then_Inr)
  from r3 obtain tv where
    c4: "call (odom_theta_get api) p h3 = (Inr tv, h')" and
    ps: "ps = \<lparr>pose_x = cv xv, pose_y = cv yv, pose_heading = cv tv\<rparr>"
    by (auto elim: and_then_Inr)
  from c1 en obtain a d d1 where
    p: "p = Ptr a" and hd: "h a = Some d" and m1: "odom_enabled api d = (Inr True, d1)"
    and h1: "h1 = h(a \<mapsto> d1)"
    by (auto elim: call_Inr)
  from c2 p h1 obtain d2 where m2: "odom_x_get api d1 = (Inr xv, d2)" and h2: "h2 = h(a \<mapsto> d2)"
    by (auto elim!: call_Inr)
  from c3 p h2 obtain d3 where m3: "odom_y_get api d2 = (Inr yv, d3)" and h3: "h3 = h(a \<mapsto> d3)"
    by (auto elim!: call_Inr)
  from c4 p h3 obtain d4 where m4: "odom_theta_get api d3 = (Inr tv, d4)" and h4: "h' = h(a \<mapsto> d4)"
    by (auto elim!: call_Inr)
  from p hd m1 m2 m3 m4 h4 ps show ?thesis by blast
qed

lemma ez_None:
  assumes "ez_poseGetter cv api p h = (Inr None, h')"
  shows "p = nullptr \<or> (\<exists>a d d1. p = Ptr a \<and> h a = Some d \<and> odom_enabled api d = (Inr False, d1))"
proof (cases "p = nullptr")
  case True
  then show ?thesis by simp
next
  case False
  with assms obtain en h1 where
    c1: "call (odom_enabled api) p h = (Inr en, h1)" and
    r1: "(if \<not> en then (Inr None, h1)
          else and_then (call (odom_x_get api) p h1) (\<lambda>x h2.
               and_then (call (odom_y_get api) p h2) (\<lambda>y h3.
               and_then (call (odom_theta_get api) p h3) (\<lambda>th h4.
                 (Inr (Some \<lparr>pose_x = cv x, pose_y = cv y, pose_heading = cv th\<rparr>), h4))))) =
         (Inr None, h')"
    by (auto simp: ez_poseGetter_inlined elim: and_then_Inr)
  have "\<not> en"
  proof
    assume en
    with r1 show False
      by (auto elim!: and_then_Inr)
  qed
  with c1 show ?thesis by (auto elim: call_Inr)
qed

lemma lemlib_Some:
  assumes "lemlib_poseGetter api p h = (Inr (Some ps), h')"
  shows "\<exists>a c c1 lp. p = Ptr a \<and> h a = Some c \<and> getPose api c = (Inr lp, c1) \<and>
      ps = \<lparr>pose_x = lp_x lp, pose_y = lp_y lp, pose_heading = lp_theta lp\<rparr> \<and> h' = h(a \<mapsto> c1)"
proof -
  from assms have "p \<noteq> nullptr" by (auto simp: lemlib_poseGetter_def)
  with assms obtain lp where "call (getPose api) p h = (Inr lp, h')"
    and "ps = \<lparr>pose_x = lp_x lp, pose_y = lp_y lp, pose_heading = lp_theta lp\<rparr>"
    by (auto simp: lemlib_poseGetter_def elim: and_then_Inr)
  then show ?thesis by (auto elim!: call_Inr)
qed

lemma lemlib_None:
  assumes "lemlib_poseGetter api p h = (Inr None, h')"
  shows "p = nullptr"
proof (rule ccontr)
  assume "p \<noteq> nullptr"
  with assms show False
    by (auto simp: lemlib_poseGetter_def elim!: and_then_Inr)
qed



subsection \<open>The example back-ends and conversions\<close>

lemma float_exponent_eq:
  assumes "2 ^ k \<le> \<bar>x\<bar>" and "\<bar>x\<bar> < 2 ^ Suc k"
  shows "float_exponent x = int k"
proof -
  from assms(1) have pos: "0 < \<bar>x\<bar>"
    by (meson less_le_trans zero_less_numeral zero_less_power)
  have "(2::real) powr real_of_int (int k) \<le> \<bar>x\<bar>"
    using assms(1) by (simp add: powr_realpow)
  moreover have "\<bar>x\<bar> < (2::real) powr real_of_int (int k + 1)"
    using assms(2) by (simp add: powr_realpow powr_add)
  ultimately have "\<lfloor>log 2 \<bar>x\<bar>\<rfloor> = int k"
    using pos by (simp add: floor_log_eq_powr_iff)
  then show ?thesis by (simp add: float_exponent_def)
qed

lemma to_float32_10: "to_float32 10 = 10"
proof -
  have "float_exponent 10 = int 3" by (rule float_exponent_eq) simp_all
  then show ?thesis by (simp add: to_float32_def pow2_def round_even_def)
qed

lemma to_float32_minus_5: "to_float32 (- 5) = - 5"
proof -
  have "float_exponent (- 5) = int 2" by (rule float_exponent_eq) simp_all
  then show ?thesis by (simp add: to_float32_def pow2_def round_even_def)
qed

lemma to_float32_90: "to_float32 90 = 90"
proof -
  have "float_exponent 90 = int 6" by (rule float_exponent_eq) simp_all
  then show ?thesis by (simp add: to_float32_def pow2_def round_even_def)
qed


lemma ez_reads_read_only: "ez_read_only ez_reads"
  by (simp add: ez_read_only_def read_only_def ez_reads_def)

lemma lemlib_reads_read_only: "lemlib_read_only lemlib_reads"
  by (simp add: lemlib_read_only_def read_only_def lemlib_reads_def)

lemma ready_ez_reads:
  "[0 \<mapsto> ready_ez] 0 = Some ready_ez \<and>
   odom_enabled ez_reads ready_ez = (Inr True, ready_ez) \<and>
   odom_x_get ez_reads ready_ez = (Inr 10, ready_ez) \<and>
   odom_y_get ez_reads ready_ez = (Inr (- 5), ready_ez) \<and>
   odom_theta_get ez_reads ready_ez = (Inr 90, ready_ez)"
  by (simp add: ez_reads_def ready_ez_def)

lemma not_ready_ez_reads:
  "[0 \<mapsto> not_ready_ez] 0 = Some not_ready_ez \<and>
   odom_enabled ez_reads not_ready_ez = (Inr False, not_ready_ez)"
  by (simp add: ez_reads_def not_ready_ez_def)


lemma lemlib_at_reads:
  "[0 \<mapsto> lemlib_at] 0 = Some lemlib_at \<and>
   getPose lemlib_reads lemlib_at = (Inr lemlib_at, lemlib_at)"
  by (simp add: lemlib_reads_def)

lemma ez_ready_run:
  "ez_poseGetter to_float32 ez_reads (Ptr 0) [0 \<mapsto> ready_ez] =
     (Inr (Some \<lparr>pose_x = 10, pose_y = - 5, pose_heading = 90\<rparr>), [0 \<mapsto> ready_ez])"
  using ready_ez_reads
    ez_ready [of "[0 \<mapsto> ready_ez]" 0 ready_ez ez_reads ready_ez 10 ready_ez "- 5" ready_ez 90
      ready_ez to_float32]
  by (simp add: to_float32_10 to_float32_minus_5 to_float32_90)

lemma ez_not_ready_run:
  "ez_poseGetter to_float32 ez_reads (Ptr 0) [0 \<mapsto> not_ready_ez] =
     (Inr None, [0 \<mapsto> not_ready_ez])"
  using not_ready_ez_reads
    ez_not_ready [of "[0 \<mapsto> not_ready_ez]" 0 not_ready_ez ez_reads not_ready_ez to_float32]
  by simp


lemma lemlib_run:
  "lemlib_poseGetter lemlib_reads (Ptr 0) [0 \<mapsto> lemlib_at] =
     (Inr (Some \<lparr>pose_x = 10, pose_y = - 5, pose_heading = 90\<rparr>), [0 \<mapsto> lemlib_at])"
  using lemlib_at_reads
    lemlib_live [of "[0 \<mapsto> lemlib_at]" 0 lemlib_at lemlib_reads lemlib_at lemlib_at]
  by (simp add: lemlib_at_def)

lemma lemlib_null_run:
  "lemlib_poseGetter lemlib_reads nullptr [0 \<mapsto> lemlib_at] = (Inr None, [0 \<mapsto> lemlib_at])"
  by (rule lemlib_null)


subsection \<open>The claims\<close>




text \<open>
  C2. With a null chassis pointer, every call of the closure, in every store and whatever
  the member functions of the back-end would do, returns \<^verbatim>\<open>std::nullopt\<close>: it is
  not a fault and not a pose, and the store is left as it was. This holds for the
  EZ-Template closure and for the LemLib closure.
\<close>

theorem null_handle_unavailable:
  "ez_poseGetter to_float api nullptr h = (Inr None, h) \<and>
   lemlib_poseGetter lapi nullptr h' = (Inr None, h')"
  by (simp add: ez_poseGetter_def lemlib_poseGetter_def)

text \<open>
  C3. When the pointer is the address of a live \<^verbatim>\<open>ez::Drive\<close> whose
  \<^verbatim>\<open>odom_enabled()\<close> reports false, the EZ-Template closure returns
  \<^verbatim>\<open>std::nullopt\<close>, the same result as with a null pointer in any store \<open>h0\<close>. The
  three pose accessors are arbitrary here: they are not called.
\<close>

theorem not_ready_unavailable:
  "h a = Some d \<and> odom_enabled api d = (Inr False, d1) \<longrightarrow>
   ez_poseGetter to_float api (Ptr a) h = (Inr None, h(a \<mapsto> d1)) \<and>
   fst (ez_poseGetter to_float api (Ptr a) h) = fst (ez_poseGetter to_float api nullptr h0)"
proof (intro impI, elim conjE)
  assume live: "h a = Some d" and off: "odom_enabled api d = (Inr False, d1)"
  then have "ez_poseGetter to_float api (Ptr a) h = (Inr None, h(a \<mapsto> d1))"
    by (rule ez_not_ready)
  then show "ez_poseGetter to_float api (Ptr a) h = (Inr None, h(a \<mapsto> d1)) \<and>
    fst (ez_poseGetter to_float api (Ptr a) h) = fst (ez_poseGetter to_float api nullptr h0)"
    by (simp add: ez_null)
qed

theorem not_ready_unavailable_witness:
  "ez_poseGetter to_float32 ez_reads (Ptr 0) [0 \<mapsto> not_ready_ez] =
     (Inr None, [0 \<mapsto> not_ready_ez]) \<and>
   fst (ez_poseGetter to_float32 ez_reads (Ptr 0) [0 \<mapsto> not_ready_ez]) =
   fst (ez_poseGetter to_float32 ez_reads nullptr Map.empty)"
proof -
  note w = not_ready_unavailable
    [where h = "[0 \<mapsto> not_ready_ez]" and a = 0 and d = not_ready_ez and api = ez_reads
       and ?d1.0 = not_ready_ez and ?h0.0 = Map.empty and to_float = to_float32,
     THEN mp, OF not_ready_ez_reads]
  from w [THEN conjunct1]
  have "ez_poseGetter to_float32 ez_reads (Ptr 0) [0 \<mapsto> not_ready_ez] =
      (Inr None, [0 \<mapsto> not_ready_ez])"
    by simp
  then show ?thesis using w [THEN conjunct2] by (rule conjI)
qed

text \<open>
  C5. When the accessors of the back-end are read-only, so that nothing changes the
  back-end between the two calls, a second call of the closure in the store the first call
  left returns what the first call returned. This holds for both integrations.
\<close>

theorem repeated_call_same_result:
  "(ez_read_only api \<longrightarrow>
      ez_poseGetter to_float api p (snd (ez_poseGetter to_float api p h)) =
      ez_poseGetter to_float api p h) \<and>
   (lemlib_read_only lapi \<longrightarrow>
      lemlib_poseGetter lapi p' (snd (lemlib_poseGetter lapi p' h')) = lemlib_poseGetter lapi p' h')"
  by (simp add: ez_frame lemlib_frame)

theorem repeated_call_same_result_witness:
  "ez_read_only (ez_reads :: (real ez_odom, unit, real) ez_Drive) \<and>
   ez_poseGetter to_float32 ez_reads (Ptr 0)
     (snd (ez_poseGetter to_float32 ez_reads (Ptr 0) [0 \<mapsto> ready_ez])) =
   ez_poseGetter to_float32 ez_reads (Ptr 0) [0 \<mapsto> ready_ez] \<and>
   lemlib_read_only (lemlib_reads :: (real lemlib_Pose, unit, real) lemlib_Chassis) \<and>
   lemlib_poseGetter lemlib_reads (Ptr 0) (snd (lemlib_poseGetter lemlib_reads (Ptr 0) [0 \<mapsto> lemlib_at])) =
   lemlib_poseGetter lemlib_reads (Ptr 0) [0 \<mapsto> lemlib_at]"
proof -
  note both = repeated_call_same_result
    [where api = "ez_reads :: (real ez_odom, unit, real) ez_Drive" and p = "Ptr 0"
       and h = "[0 \<mapsto> ready_ez]" and to_float = to_float32
       and lapi = "lemlib_reads :: (real lemlib_Pose, unit, real) lemlib_Chassis"
       and p' = "Ptr 0" and h' = "[0 \<mapsto> lemlib_at]"]
  from ez_reads_read_only both [THEN conjunct1, THEN mp, OF ez_reads_read_only]
    lemlib_reads_read_only both [THEN conjunct2, THEN mp, OF lemlib_reads_read_only]
  show ?thesis by (intro conjI)
qed

text \<open>
  C6. A result of a closure that is a pose is fully populated from the back-end: the
  pointer is the address of a live chassis, readiness was reported true (EZ-Template), and
  each of the three fields is the value the matching accessor returned, as the
  \<^verbatim>\<open>float\<close> local holds it. A result that is \<^verbatim>\<open>std::nullopt\<close> stands for absence
  only: the pointer is null, or (EZ-Template) the back-end reported not ready. So no pose
  is ever returned for an absent source, and absence is never a pose.
\<close>

theorem sample_is_pose_or_nullopt:
  "(ez_poseGetter to_float api p h = (Inr (Some ps), h') \<longrightarrow>
      (\<exists>a d d1 xv d2 yv d3 tv d4. p = Ptr a \<and> h a = Some d \<and>
         odom_enabled api d = (Inr True, d1) \<and> odom_x_get api d1 = (Inr xv, d2) \<and>
         odom_y_get api d2 = (Inr yv, d3) \<and> odom_theta_get api d3 = (Inr tv, d4) \<and>
         ps = \<lparr>pose_x = to_float xv, pose_y = to_float yv, pose_heading = to_float tv\<rparr> \<and>
         h' = h(a \<mapsto> d4))) \<and>
   (ez_poseGetter to_float api p h = (Inr None, h') \<longrightarrow>
      p = nullptr \<or>
      (\<exists>a d d1. p = Ptr a \<and> h a = Some d \<and> odom_enabled api d = (Inr False, d1))) \<and>
   (lemlib_poseGetter lapi q g = (Inr (Some qs), g') \<longrightarrow>
      (\<exists>a c c1 lp. q = Ptr a \<and> g a = Some c \<and> getPose lapi c = (Inr lp, c1) \<and>
         qs = \<lparr>pose_x = lp_x lp, pose_y = lp_y lp, pose_heading = lp_theta lp\<rparr> \<and>
         g' = g(a \<mapsto> c1))) \<and>
   (lemlib_poseGetter lapi q g = (Inr None, g') \<longrightarrow> q = nullptr)"
  using ez_Some [of to_float api p h ps h'] ez_None [of to_float api p h h']
    lemlib_Some [of lapi q g qs g'] lemlib_None [of lapi q g g']
  by blast

theorem sample_is_pose_or_nullopt_witness:
  "ez_poseGetter to_float32 ez_reads (Ptr 0) [0 \<mapsto> ready_ez] =
     (Inr (Some \<lparr>pose_x = 10, pose_y = - 5, pose_heading = 90\<rparr>), [0 \<mapsto> ready_ez]) \<and>
   (\<exists>a d d1 xv d2 yv d3 tv d4. Ptr 0 = Ptr a \<and> [0 \<mapsto> ready_ez] a = Some d \<and>
      odom_enabled ez_reads d = (Inr True, d1) \<and> odom_x_get ez_reads d1 = (Inr xv, d2) \<and>
      odom_y_get ez_reads d2 = (Inr yv, d3) \<and> odom_theta_get ez_reads d3 = (Inr tv, d4) \<and>
      \<lparr>pose_x = 10, pose_y = - 5, pose_heading = 90\<rparr> =
        \<lparr>pose_x = to_float32 xv, pose_y = to_float32 yv, pose_heading = to_float32 tv\<rparr> \<and>
      [0 \<mapsto> ready_ez] = [0 \<mapsto> ready_ez, a \<mapsto> d4]) \<and>
   ez_poseGetter to_float32 ez_reads (Ptr 0) [0 \<mapsto> not_ready_ez] =
     (Inr None, [0 \<mapsto> not_ready_ez]) \<and>
   (Ptr 0 = nullptr \<or>
    (\<exists>a d d1. Ptr 0 = Ptr a \<and> [0 \<mapsto> not_ready_ez] a = Some d \<and>
      odom_enabled ez_reads d = (Inr False, d1))) \<and>
   lemlib_poseGetter lemlib_reads (Ptr 0) [0 \<mapsto> lemlib_at] =
     (Inr (Some \<lparr>pose_x = 10, pose_y = - 5, pose_heading = 90\<rparr>), [0 \<mapsto> lemlib_at]) \<and>
   (\<exists>a c c1 lp. Ptr 0 = Ptr a \<and> [0 \<mapsto> lemlib_at] a = Some c \<and>
      getPose lemlib_reads c = (Inr lp, c1) \<and>
      \<lparr>pose_x = 10, pose_y = - 5, pose_heading = 90\<rparr> =
        \<lparr>pose_x = lp_x lp, pose_y = lp_y lp, pose_heading = lp_theta lp\<rparr> \<and>
      [0 \<mapsto> lemlib_at] = [0 \<mapsto> lemlib_at, a \<mapsto> c1]) \<and>
   lemlib_poseGetter lemlib_reads nullptr [0 \<mapsto> lemlib_at] = (Inr None, [0 \<mapsto> lemlib_at]) \<and>
   (nullptr :: ptr) = nullptr"
proof -
  note a = sample_is_pose_or_nullopt
    [where api = ez_reads and p = "Ptr 0" and h = "[0 \<mapsto> ready_ez]" and to_float = to_float32
       and ps = "\<lparr>pose_x = 10, pose_y = - 5, pose_heading = 90\<rparr>" and h' = "[0 \<mapsto> ready_ez]",
     THEN conjunct1, THEN mp, OF ez_ready_run]
  note b = sample_is_pose_or_nullopt
    [where api = ez_reads and p = "Ptr 0" and h = "[0 \<mapsto> not_ready_ez]"
       and to_float = to_float32 and h' = "[0 \<mapsto> not_ready_ez]",
     THEN conjunct2, THEN conjunct1, THEN mp, OF ez_not_ready_run]
  note c = sample_is_pose_or_nullopt
    [where lapi = lemlib_reads and q = "Ptr 0" and g = "[0 \<mapsto> lemlib_at]"
       and qs = "\<lparr>pose_x = 10, pose_y = - 5, pose_heading = 90\<rparr>" and g' = "[0 \<mapsto> lemlib_at]",
     THEN conjunct2, THEN conjunct2, THEN conjunct1, THEN mp, OF lemlib_run]
  note d = sample_is_pose_or_nullopt
    [where lapi = lemlib_reads and q = nullptr and g = "[0 \<mapsto> lemlib_at]"
       and g' = "[0 \<mapsto> lemlib_at]",
     THEN conjunct2, THEN conjunct2, THEN conjunct2, THEN mp, OF lemlib_null_run]
  from ez_ready_run a ez_not_ready_run b lemlib_run c lemlib_null_run d
  show ?thesis by (intro conjI)
qed

text \<open>
  C7. A call of a closure touches the store only through the member calls on the captured
  pointer: every object at another address is left as it was, whatever the accessors do,
  and when the accessors are read-only the whole store after the call is the store before
  it. This holds for both integrations.
\<close>

theorem closure_leaves_backend:
  "(ez_read_only api \<longrightarrow> snd (ez_poseGetter to_float api p h) = h) \<and>
   (p \<noteq> Ptr b \<longrightarrow> snd (ez_poseGetter to_float api p h) b = h b) \<and>
   (lemlib_read_only lapi \<longrightarrow> snd (lemlib_poseGetter lapi q g) = g) \<and>
   (q \<noteq> Ptr c \<longrightarrow> snd (lemlib_poseGetter lapi q g) c = g c)"
  by (simp add: ez_frame ez_other lemlib_frame lemlib_other)

theorem closure_leaves_backend_witness:
  "ez_read_only (ez_reads :: (real ez_odom, unit, real) ez_Drive) \<and>
   snd (ez_poseGetter to_float32 ez_reads (Ptr 0) [0 \<mapsto> ready_ez, 1 \<mapsto> not_ready_ez]) =
     [0 \<mapsto> ready_ez, 1 \<mapsto> not_ready_ez] \<and>
   snd (ez_poseGetter to_float32 ez_reads (Ptr 0) [0 \<mapsto> ready_ez, 1 \<mapsto> not_ready_ez]) 1 =
     [0 \<mapsto> ready_ez, 1 \<mapsto> not_ready_ez] (1 :: addr) \<and>
   lemlib_read_only (lemlib_reads :: (real lemlib_Pose, unit, real) lemlib_Chassis) \<and>
   snd (lemlib_poseGetter lemlib_reads (Ptr 0) [0 \<mapsto> lemlib_at]) = [0 \<mapsto> lemlib_at] \<and>
   snd (lemlib_poseGetter lemlib_reads (Ptr 0) [0 \<mapsto> lemlib_at]) 1 = [0 \<mapsto> lemlib_at] (1 :: addr)"
proof -
  note w = closure_leaves_backend
    [where api = "ez_reads :: (real ez_odom, unit, real) ez_Drive" and p = "Ptr 0"
       and h = "[0 \<mapsto> ready_ez, 1 \<mapsto> not_ready_ez]" and b = 1 and to_float = to_float32
       and lapi = "lemlib_reads :: (real lemlib_Pose, unit, real) lemlib_Chassis"
       and q = "Ptr 0" and g = "[0 \<mapsto> lemlib_at]" and c = 1]
  have ne: "Ptr 0 \<noteq> Ptr 1" by simp
  from ez_reads_read_only
    w [THEN conjunct1, THEN mp, OF ez_reads_read_only]
    w [THEN conjunct2, THEN conjunct1, THEN mp, OF ne]
    lemlib_reads_read_only
    w [THEN conjunct2, THEN conjunct2, THEN conjunct1, THEN mp, OF lemlib_reads_read_only]
    w [THEN conjunct2, THEN conjunct2, THEN conjunct2, THEN mp, OF ne]
  show ?thesis by (intro conjI)
qed


text \<open>
  C9. \<^verbatim>\<open>setOdom\<close> makes no member call on the chassis: in every store, for every
  pointer (null, dangling or live) and whatever the accessors would do, it returns without
  a fault, leaves the store as it was, and changes the logger only by registering a
  closure. That closure decides in each call, against the store of that call and the
  pointer captured at installation: \<^verbatim>\<open>std::nullopt\<close> for a null pointer, a member
  call through the pointer otherwise, giving \<^verbatim>\<open>std::nullopt\<close> when the back-end is
  not ready then and the pose read then when it is.
\<close>

theorem setOdom_installs_lazy_closure:
  "(\<exists>g. ez_setOdom to_float api logger p h0 = (Inr (logger\<lparr>poseGetter := Some g\<rparr>), h0) \<and>
      (\<forall>h. p = nullptr \<longrightarrow> g h = (Inr None, h)) \<and>
      (\<forall>h a. p = Ptr a \<and> h a = None \<longrightarrow> g h = (Inl InvalidDeref, h)) \<and>
      (\<forall>h a d d1. p = Ptr a \<and> h a = Some d \<and> odom_enabled api d = (Inr False, d1) \<longrightarrow>
         g h = (Inr None, h(a \<mapsto> d1))) \<and>
      (\<forall>h a d d1 xv d2 yv d3 tv d4.
         p = Ptr a \<and> h a = Some d \<and> odom_enabled api d = (Inr True, d1) \<and>
         odom_x_get api d1 = (Inr xv, d2) \<and> odom_y_get api d2 = (Inr yv, d3) \<and>
         odom_theta_get api d3 = (Inr tv, d4) \<longrightarrow>
         g h = (Inr (Some \<lparr>pose_x = to_float xv, pose_y = to_float yv,
                            pose_heading = to_float tv\<rparr>), h(a \<mapsto> d4)))) \<and>
   (\<exists>g. lemlib_setOdom lapi logger' q h0' = (Inr (logger'\<lparr>poseGetter := Some g\<rparr>), h0') \<and>
      (\<forall>h. q = nullptr \<longrightarrow> g h = (Inr None, h)) \<and>
      (\<forall>h a. q = Ptr a \<and> h a = None \<longrightarrow> g h = (Inl InvalidDeref, h)) \<and>
      (\<forall>h a c c1 lp. q = Ptr a \<and> h a = Some c \<and> getPose lapi c = (Inr lp, c1) \<longrightarrow>
         g h = (Inr (Some \<lparr>pose_x = lp_x lp, pose_y = lp_y lp, pose_heading = lp_theta lp\<rparr>),
                h(a \<mapsto> c1))))"
proof (rule conjI)
  show "\<exists>g. ez_setOdom to_float api logger p h0 = (Inr (logger\<lparr>poseGetter := Some g\<rparr>), h0) \<and>
      (\<forall>h. p = nullptr \<longrightarrow> g h = (Inr None, h)) \<and>
      (\<forall>h a. p = Ptr a \<and> h a = None \<longrightarrow> g h = (Inl InvalidDeref, h)) \<and>
      (\<forall>h a d d1. p = Ptr a \<and> h a = Some d \<and> odom_enabled api d = (Inr False, d1) \<longrightarrow>
         g h = (Inr None, h(a \<mapsto> d1))) \<and>
      (\<forall>h a d d1 xv d2 yv d3 tv d4.
         p = Ptr a \<and> h a = Some d \<and> odom_enabled api d = (Inr True, d1) \<and>
         odom_x_get api d1 = (Inr xv, d2) \<and> odom_y_get api d2 = (Inr yv, d3) \<and>
         odom_theta_get api d3 = (Inr tv, d4) \<longrightarrow>
         g h = (Inr (Some \<lparr>pose_x = to_float xv, pose_y = to_float yv,
                            pose_heading = to_float tv\<rparr>), h(a \<mapsto> d4)))"
  proof (intro exI [of _ "ez_poseGetter to_float api p"] conjI allI impI)
    show "ez_setOdom to_float api logger p h0 =
        (Inr (logger\<lparr>poseGetter := Some (ez_poseGetter to_float api p)\<rparr>), h0)"
      by (simp add: ez_setOdom_def setPoseGetter_def)
  qed (auto simp: ez_null ez_dangling ez_not_ready ez_ready)
next
  show "\<exists>g. lemlib_setOdom lapi logger' q h0' = (Inr (logger'\<lparr>poseGetter := Some g\<rparr>), h0') \<and>
      (\<forall>h. q = nullptr \<longrightarrow> g h = (Inr None, h)) \<and>
      (\<forall>h a. q = Ptr a \<and> h a = None \<longrightarrow> g h = (Inl InvalidDeref, h)) \<and>
      (\<forall>h a c c1 lp. q = Ptr a \<and> h a = Some c \<and> getPose lapi c = (Inr lp, c1) \<longrightarrow>
         g h = (Inr (Some \<lparr>pose_x = lp_x lp, pose_y = lp_y lp, pose_heading = lp_theta lp\<rparr>),
                h(a \<mapsto> c1)))"
  proof (intro exI [of _ "lemlib_poseGetter lapi q"] conjI allI impI)
    show "lemlib_setOdom lapi logger' q h0' =
        (Inr (logger'\<lparr>poseGetter := Some (lemlib_poseGetter lapi q)\<rparr>), h0')"
      by (simp add: lemlib_setOdom_def setPoseGetter_def)
  qed (auto simp: lemlib_null lemlib_dangling lemlib_live)
qed

text \<open>
  Installed with the address 0 while no chassis lives there, and with the null pointer
  while one does: \<^verbatim>\<open>setOdom\<close> returns normally both times. The first closure, called
  while the application changes the chassis at address 0, follows the store: a fault
  while nothing lives there, the pose while odometry is enabled, \<^verbatim>\<open>std::nullopt\<close>
  once it is disabled. The second closure gives \<^verbatim>\<open>std::nullopt\<close> although a ready
  chassis lives at address 0.
\<close>

theorem setOdom_installs_lazy_closure_witness:
  "(\<exists>g. ez_setOdom to_float32 ez_reads \<lparr>poseGetter = None\<rparr> (Ptr 0) Map.empty =
        (Inr \<lparr>poseGetter = Some g\<rparr>, Map.empty) \<and>
      g Map.empty = (Inl InvalidDeref, Map.empty) \<and>
      g [0 \<mapsto> ready_ez] =
        (Inr (Some \<lparr>pose_x = 10, pose_y = - 5, pose_heading = 90\<rparr>), [0 \<mapsto> ready_ez]) \<and>
      g [0 \<mapsto> not_ready_ez] = (Inr None, [0 \<mapsto> not_ready_ez])) \<and>
   (\<exists>g. ez_setOdom to_float32 ez_reads \<lparr>poseGetter = None\<rparr> nullptr [0 \<mapsto> ready_ez] =
        (Inr \<lparr>poseGetter = Some g\<rparr>, [0 \<mapsto> ready_ez]) \<and>
      g [0 \<mapsto> ready_ez] = (Inr None, [0 \<mapsto> ready_ez])) \<and>
   (\<exists>g. lemlib_setOdom lemlib_reads \<lparr>poseGetter = None\<rparr> (Ptr 0) Map.empty =
        (Inr \<lparr>poseGetter = Some g\<rparr>, Map.empty) \<and>
      g Map.empty = (Inl InvalidDeref, Map.empty) \<and>
      g [0 \<mapsto> lemlib_at] =
        (Inr (Some \<lparr>pose_x = 10, pose_y = - 5, pose_heading = 90\<rparr>), [0 \<mapsto> lemlib_at]))"
proof (intro conjI)
  from setOdom_installs_lazy_closure
    [where to_float = to_float32 and api = ez_reads and logger = "\<lparr>poseGetter = None\<rparr>"
       and p = "Ptr 0" and ?h0.0 = "Map.empty :: real ez_odom heap", THEN conjunct1]
  obtain g where
    inst: "ez_setOdom to_float32 ez_reads \<lparr>poseGetter = None\<rparr> (Ptr 0) Map.empty =
        (Inr (\<lparr>poseGetter = None\<rparr>\<lparr>poseGetter := Some g\<rparr>), Map.empty)" and
    dangling: "\<forall>h a. Ptr 0 = Ptr a \<and> h a = None \<longrightarrow> g h = (Inl InvalidDeref, h)" and
    off: "\<forall>h a d d1. Ptr 0 = Ptr a \<and> h a = Some d \<and> odom_enabled ez_reads d = (Inr False, d1) \<longrightarrow>
         g h = (Inr None, h(a \<mapsto> d1))" and
    on: "\<forall>h a d d1 xv d2 yv d3 tv d4.
         Ptr 0 = Ptr a \<and> h a = Some d \<and> odom_enabled ez_reads d = (Inr True, d1) \<and>
         odom_x_get ez_reads d1 = (Inr xv, d2) \<and> odom_y_get ez_reads d2 = (Inr yv, d3) \<and>
         odom_theta_get ez_reads d3 = (Inr tv, d4) \<longrightarrow>
         g h = (Inr (Some \<lparr>pose_x = to_float32 xv, pose_y = to_float32 yv,
                            pose_heading = to_float32 tv\<rparr>), h(a \<mapsto> d4))"
    by blast
  from dangling have r0: "g Map.empty = (Inl InvalidDeref, Map.empty)" by simp
  from on [rule_format, of 0 "[0 \<mapsto> ready_ez]" ready_ez ready_ez 10 ready_ez "- 5" ready_ez 90 ready_ez]
    ready_ez_reads
  have r1: "g [0 \<mapsto> ready_ez] =
      (Inr (Some \<lparr>pose_x = 10, pose_y = - 5, pose_heading = 90\<rparr>), [0 \<mapsto> ready_ez])"
    by (simp add: to_float32_10 to_float32_minus_5 to_float32_90)
  from off [rule_format, of 0 "[0 \<mapsto> not_ready_ez]" not_ready_ez not_ready_ez] not_ready_ez_reads
  have r2: "g [0 \<mapsto> not_ready_ez] = (Inr None, [0 \<mapsto> not_ready_ez])"
    by simp
  from inst r0 r1 r2
  show "\<exists>g. ez_setOdom to_float32 ez_reads \<lparr>poseGetter = None\<rparr> (Ptr 0) Map.empty =
        (Inr \<lparr>poseGetter = Some g\<rparr>, Map.empty) \<and>
      g Map.empty = (Inl InvalidDeref, Map.empty) \<and>
      g [0 \<mapsto> ready_ez] =
        (Inr (Some \<lparr>pose_x = 10, pose_y = - 5, pose_heading = 90\<rparr>), [0 \<mapsto> ready_ez]) \<and>
      g [0 \<mapsto> not_ready_ez] = (Inr None, [0 \<mapsto> not_ready_ez])"
    by (intro exI [of _ g]) simp
next
  from setOdom_installs_lazy_closure
    [where to_float = to_float32 and api = ez_reads and logger = "\<lparr>poseGetter = None\<rparr>"
       and p = nullptr and ?h0.0 = "[0 \<mapsto> ready_ez]", THEN conjunct1]
  obtain g where
    inst: "ez_setOdom to_float32 ez_reads \<lparr>poseGetter = None\<rparr> nullptr [0 \<mapsto> ready_ez] =
        (Inr (\<lparr>poseGetter = None\<rparr>\<lparr>poseGetter := Some g\<rparr>), [0 \<mapsto> ready_ez])" and
    null: "\<forall>h. (nullptr :: ptr) = nullptr \<longrightarrow> g h = (Inr None, h)"
    by blast
  from null have "g [0 \<mapsto> ready_ez] = (Inr None, [0 \<mapsto> ready_ez])" by simp
  with inst
  show "\<exists>g. ez_setOdom to_float32 ez_reads \<lparr>poseGetter = None\<rparr> nullptr [0 \<mapsto> ready_ez] =
        (Inr \<lparr>poseGetter = Some g\<rparr>, [0 \<mapsto> ready_ez]) \<and>
      g [0 \<mapsto> ready_ez] = (Inr None, [0 \<mapsto> ready_ez])"
    by (intro exI [of _ g]) simp
next
  from setOdom_installs_lazy_closure
    [where lapi = lemlib_reads and logger' = "\<lparr>poseGetter = None\<rparr>"
       and q = "Ptr 0" and ?h0' = "Map.empty :: real lemlib_Pose heap", THEN conjunct2]
  obtain g where
    inst: "lemlib_setOdom lemlib_reads \<lparr>poseGetter = None\<rparr> (Ptr 0) Map.empty =
        (Inr (\<lparr>poseGetter = None\<rparr>\<lparr>poseGetter := Some g\<rparr>),
         Map.empty :: real lemlib_Pose heap)" and
    dangling: "\<forall>h a. Ptr 0 = Ptr a \<and> h a = None \<longrightarrow> g h = (Inl InvalidDeref, h)" and
    live: "\<forall>h a c c1 lp. Ptr 0 = Ptr a \<and> h a = Some c \<and> getPose lemlib_reads c = (Inr lp, c1) \<longrightarrow>
         g h = (Inr (Some \<lparr>pose_x = lp_x lp, pose_y = lp_y lp, pose_heading = lp_theta lp\<rparr>),
                h(a \<mapsto> c1))"
    by blast
  from dangling have r0: "g Map.empty = (Inl InvalidDeref, Map.empty)" by simp
  from live [rule_format, of 0 "[0 \<mapsto> lemlib_at]" lemlib_at lemlib_at lemlib_at] lemlib_at_reads
  have r1: "g [0 \<mapsto> lemlib_at] =
      (Inr (Some \<lparr>pose_x = 10, pose_y = - 5, pose_heading = 90\<rparr>), [0 \<mapsto> lemlib_at])"
    by (simp add: lemlib_at_def)
  from inst r0 r1
  show "\<exists>g. lemlib_setOdom lemlib_reads \<lparr>poseGetter = None\<rparr> (Ptr 0) Map.empty =
        (Inr \<lparr>poseGetter = Some g\<rparr>, Map.empty) \<and>
      g Map.empty = (Inl InvalidDeref, Map.empty) \<and>
      g [0 \<mapsto> lemlib_at] =
        (Inr (Some \<lparr>pose_x = 10, pose_y = - 5, pose_heading = 90\<rparr>), [0 \<mapsto> lemlib_at])"
    by (intro exI [of _ g]) simp
qed

text \<open>
  C10. The LemLib closure makes no readiness test: whenever the pointer is the address of
  a live chassis, whatever state that chassis is in, the closure returns the pose built
  from \<^verbatim>\<open>getPose()\<close>; and with a pointer that is not null the result is never
  \<^verbatim>\<open>std::nullopt\<close>.
\<close>

theorem lemlib_no_readiness_check:
  "(h a = Some c \<and> getPose lapi c = (Inr lp, c1) \<longrightarrow>
      lemlib_poseGetter lapi (Ptr a) h =
        (Inr (Some \<lparr>pose_x = lp_x lp, pose_y = lp_y lp, pose_heading = lp_theta lp\<rparr>), h(a \<mapsto> c1))) \<and>
   (p \<noteq> nullptr \<longrightarrow> fst (lemlib_poseGetter lapi p h') \<noteq> Inr None)"
proof (intro conjI impI)
  assume "h a = Some c \<and> getPose lapi c = (Inr lp, c1)"
  then have "call (getPose lapi) (Ptr a) h = (Inr lp, h(a \<mapsto> c1))"
    by (simp add: call_live)
  then show "lemlib_poseGetter lapi (Ptr a) h =
      (Inr (Some \<lparr>pose_x = lp_x lp, pose_y = lp_y lp, pose_heading = lp_theta lp\<rparr>), h(a \<mapsto> c1))"
    by (simp add: lemlib_poseGetter_def and_then_def)
next
  assume nn: "p \<noteq> nullptr"
  show "fst (lemlib_poseGetter lapi p h') \<noteq> Inr None"
  proof
    assume "fst (lemlib_poseGetter lapi p h') = Inr None"
    then have "lemlib_poseGetter lapi p h' = (Inr None, snd (lemlib_poseGetter lapi p h'))"
      by (metis prod.collapse)
    then have "p = nullptr" by (rule lemlib_None)
    with nn show False by simp
  qed
qed

theorem lemlib_no_readiness_check_witness:
  "lemlib_poseGetter lemlib_reads (Ptr 0) [0 \<mapsto> lemlib_at] =
     (Inr (Some \<lparr>pose_x = lp_x lemlib_at, pose_y = lp_y lemlib_at, pose_heading = lp_theta lemlib_at\<rparr>),
      [0 \<mapsto> lemlib_at, 0 \<mapsto> lemlib_at]) \<and>
   fst (lemlib_poseGetter lemlib_reads (Ptr 0) [0 \<mapsto> lemlib_at]) \<noteq> Inr None"
proof -
  have live: "[0 \<mapsto> lemlib_at] 0 = Some lemlib_at \<and>
      getPose lemlib_reads lemlib_at = (Inr lemlib_at, lemlib_at)"
    by (simp add: lemlib_reads_def)
  have nn: "Ptr 0 \<noteq> nullptr" by simp
  note w = lemlib_no_readiness_check
    [where h = "[0 \<mapsto> lemlib_at]" and a = 0 and c = lemlib_at and lapi = lemlib_reads
       and lp = lemlib_at and ?c1.0 = lemlib_at and p = "Ptr 0" and h' = "[0 \<mapsto> lemlib_at]"]
  from w [THEN conjunct1, THEN mp, OF live] w [THEN conjunct2, THEN mp, OF nn]
  show ?thesis by (intro conjI)
qed

section \<open>Properties of the guard\<close>

subsection \<open>One header after another\<close>

lemma headers_differ: "ez_template_hpp \<noteq> lemlib_hpp" "lemlib_hpp \<noteq> ez_template_hpp"
  by (simp_all add: ez_template_hpp_def lemlib_hpp_def)

lemma ez_first: "include_file ez_template_hpp initial = after_ez"
  by (simp add: ez_template_hpp_def initial_def after_ez_def)

lemma lemlib_first: "include_file lemlib_hpp initial = after_lemlib"
  by (simp add: lemlib_hpp_def initial_def after_lemlib_def)

lemma ez_again: "include_file ez_template_hpp after_ez = after_ez"
  by (simp add: ez_template_hpp_def after_ez_def)

lemma lemlib_again: "include_file lemlib_hpp after_lemlib = after_lemlib"
  by (simp add: lemlib_hpp_def after_lemlib_def)

lemma lemlib_after_ez: "include_file lemlib_hpp after_ez = ez_then_lemlib"
  by (simp add: lemlib_hpp_def after_ez_def ez_then_lemlib_def guard_message_def)

lemma ez_after_lemlib: "include_file ez_template_hpp after_lemlib = lemlib_then_ez"
  by (simp add: ez_template_hpp_def after_lemlib_def lemlib_then_ez_def guard_message_def)

lemma after_conflict:
  "include_file ez_template_hpp ez_then_lemlib = ez_then_lemlib"
  "include_file lemlib_hpp ez_then_lemlib = ez_then_lemlib"
  "include_file ez_template_hpp lemlib_then_ez = lemlib_then_ez"
  "include_file lemlib_hpp lemlib_then_ez = lemlib_then_ez"
  by (simp_all add: ez_template_hpp_def lemlib_hpp_def ez_then_lemlib_def lemlib_then_ez_def
      after_ez_def after_lemlib_def)

subsection \<open>A whole translation unit, a whole build\<close>

lemma unit_after_conflict:
  "set hs \<subseteq> {ez_template_hpp, lemlib_hpp} \<Longrightarrow>
   translation_unit hs ez_then_lemlib = ez_then_lemlib \<and>
   translation_unit hs lemlib_then_ez = lemlib_then_ez"
  by (induction hs) (auto simp: after_conflict)

lemma unit_after_ez:
  "set hs \<subseteq> {ez_template_hpp, lemlib_hpp} \<Longrightarrow>
   translation_unit hs after_ez = (if lemlib_hpp \<in> set hs then ez_then_lemlib else after_ez)"
proof (induction hs)
  case Nil
  show ?case by simp
next
  case (Cons hdr hs)
  then have "hdr = ez_template_hpp \<or> hdr = lemlib_hpp" by simp
  then show ?case
  proof
    assume "hdr = ez_template_hpp"
    with Cons show ?thesis by (simp add: ez_again headers_differ)
  next
    assume "hdr = lemlib_hpp"
    with Cons show ?thesis by (simp add: lemlib_after_ez unit_after_conflict)
  qed
qed

lemma unit_after_lemlib:
  "set hs \<subseteq> {ez_template_hpp, lemlib_hpp} \<Longrightarrow>
   translation_unit hs after_lemlib =
     (if ez_template_hpp \<in> set hs then lemlib_then_ez else after_lemlib)"
proof (induction hs)
  case Nil
  show ?case by simp
next
  case (Cons hdr hs)
  then have "hdr = ez_template_hpp \<or> hdr = lemlib_hpp" by simp
  then show ?case
  proof
    assume "hdr = lemlib_hpp"
    with Cons show ?thesis by (simp add: lemlib_again headers_differ)
  next
    assume "hdr = ez_template_hpp"
    with Cons show ?thesis by (simp add: ez_after_lemlib unit_after_conflict)
  qed
qed

lemma state_diagnostics:
  "diagnostics initial = []" "diagnostics after_ez = []" "diagnostics after_lemlib = []"
  "diagnostics ez_then_lemlib = [(fst lemlib_hpp, guard_message)]"
  "diagnostics lemlib_then_ez = [(fst ez_template_hpp, guard_message)]"
  by (simp_all add: initial_def after_ez_def after_lemlib_def ez_then_lemlib_def
      lemlib_then_ez_def ez_template_hpp_def lemlib_hpp_def)

lemma preprocess_result:
  assumes "set hs \<subseteq> {ez_template_hpp, lemlib_hpp}"
  shows "preprocess hs =
     (if ez_template_hpp \<in> set hs \<and> lemlib_hpp \<in> set hs
      then Inl [(fst (if hd hs = ez_template_hpp then lemlib_hpp else ez_template_hpp),
                 guard_message)]
      else if ez_template_hpp \<in> set hs then Inr after_ez
      else if lemlib_hpp \<in> set hs then Inr after_lemlib
      else Inr initial)"
proof (cases hs)
  case Nil
  then show ?thesis by (simp add: preprocess_def state_diagnostics)
next
  case (Cons hdr tl)
  with assms have tl: "set tl \<subseteq> {ez_template_hpp, lemlib_hpp}"
    and "hdr = ez_template_hpp \<or> hdr = lemlib_hpp" by auto
  then show ?thesis
  proof (elim disjE)
    assume "hdr = ez_template_hpp"
    with Cons tl show ?thesis
      by (simp add: preprocess_def ez_first unit_after_ez headers_differ state_diagnostics)
  next
    assume "hdr = lemlib_hpp"
    with Cons tl show ?thesis
      by (simp add: preprocess_def lemlib_first unit_after_lemlib headers_differ state_diagnostics)
  qed
qed

lemma build_fails:
  "tu \<in> set tus \<Longrightarrow> preprocess tu = Inl e \<Longrightarrow> \<exists>e'. build tus = Inl e'"
  by (induction tus) (auto split: sum.splits)

lemma preprocess_ez_lemlib:
  "preprocess [ez_template_hpp, lemlib_hpp] = Inl [(fst lemlib_hpp, guard_message)]"
  using preprocess_result [of "[ez_template_hpp, lemlib_hpp]"] by simp

lemma preprocess_lemlib_ez:
  "preprocess [lemlib_hpp, ez_template_hpp] = Inl [(fst ez_template_hpp, guard_message)]"
  using preprocess_result [of "[lemlib_hpp, ez_template_hpp]"] by (simp add: headers_differ)

lemma preprocess_ez: "preprocess [ez_template_hpp] = Inr after_ez"
  using preprocess_result [of "[ez_template_hpp]"] by (simp add: headers_differ)

lemma preprocess_lemlib: "preprocess [lemlib_hpp] = Inr after_lemlib"
  using preprocess_result [of "[lemlib_hpp]"] by (simp add: headers_differ)

lemma preprocess_ez_twice: "preprocess [ez_template_hpp, ez_template_hpp] = Inr after_ez"
  using preprocess_result [of "[ez_template_hpp, ez_template_hpp]"] by (simp add: headers_differ)

lemma guard_message_names_no_integration:
  "\<not> names guard_message ez_template_name \<and> \<not> names guard_message lemlib_name"
  by code_simp

lemma ez_header_path_names:
  "names (fst ez_template_hpp) ez_template_name \<and> \<not> names (fst ez_template_hpp) lemlib_name"
  by code_simp

subsection \<open>The claims\<close>

text \<open>
  C4, as stated, fails: the guard is a macro, and a macro lives inside one translation
  unit. A program of two translation units, one including the EZ-Template header and the
  other the LemLib header, preprocesses without a diagnostic, and both \<^verbatim>\<open>setOdom\<close>
  overloads are declared in it.
\<close>

theorem two_units_build:
  "build [[ez_template_hpp], [lemlib_hpp]] =
     Inr [[Included ''mvlib/core.hpp'', Included ''EZ-Template/api.hpp'', Included ''optional'',
           Declared ez_setOdom_decl],
          [Included ''mvlib/core.hpp'', Included ''lemlib/api.hpp'', Declared lemlib_setOdom_decl]]"
  by (simp add: preprocess_ez preprocess_lemlib after_ez_def after_lemlib_def)

text \<open>
  In such a program both overloads can be called on the same logger. With the logger as
  the spec describes it (one slot, see above), the later call replaces the closure of the
  earlier one without any diagnostic.
\<close>

lemma later_setOdom_replaces_earlier:
  "ez_setOdom to_float api logger p h =
     (Inr (logger\<lparr>poseGetter := Some (ez_poseGetter to_float api p)\<rparr>), h) \<and>
   lemlib_setOdom lapi (logger\<lparr>poseGetter := Some (ez_poseGetter to_float api p)\<rparr>) q h =
     (Inr (logger\<lparr>poseGetter := Some (lemlib_poseGetter lapi q)\<rparr>), h)"
  by (simp add: ez_setOdom_def lemlib_setOdom_def setPoseGetter_def)

text \<open>
  C4, amended: within one translation unit that includes the two integration headers (in
  any order, any number of times), including both raises the \<^verbatim>\<open>#error\<close> of the
  header that comes second, so the unit fails and every build that holds this unit fails;
  and a unit that preprocesses declares at most one \<^verbatim>\<open>setOdom\<close> overload.
\<close>

theorem two_integrations_in_one_unit_fail:
  "set hs \<subseteq> {ez_template_hpp, lemlib_hpp} \<longrightarrow>
     (ez_template_hpp \<in> set hs \<and> lemlib_hpp \<in> set hs \<longrightarrow>
        preprocess hs =
          Inl [(fst (if hd hs = ez_template_hpp then lemlib_hpp else ez_template_hpp),
                ''More than one type of Logger/Optional include used!'')] \<and>
        (hs \<in> set tus \<longrightarrow> (\<exists>e. build tus = Inl e))) \<and>
     (preprocess hs = Inr s \<longrightarrow>
        declared (emitted s) = [] \<or> declared (emitted s) = [ez_setOdom_decl] \<or>
        declared (emitted s) = [lemlib_setOdom_decl])"
proof (intro impI conjI)
  assume hs: "set hs \<subseteq> {ez_template_hpp, lemlib_hpp}"
    and both: "ez_template_hpp \<in> set hs \<and> lemlib_hpp \<in> set hs"
  from preprocess_result [OF hs] both
  have fails: "preprocess hs =
      Inl [(fst (if hd hs = ez_template_hpp then lemlib_hpp else ez_template_hpp), guard_message)]"
    by simp
  then show "preprocess hs =
      Inl [(fst (if hd hs = ez_template_hpp then lemlib_hpp else ez_template_hpp),
            ''More than one type of Logger/Optional include used!'')]"
    by (simp add: guard_message_def)
  assume "hs \<in> set tus"
  then show "\<exists>e. build tus = Inl e" using fails by (rule build_fails)
next
  assume hs: "set hs \<subseteq> {ez_template_hpp, lemlib_hpp}" and ok: "preprocess hs = Inr s"
  from preprocess_result [OF hs] ok
  have "s = after_ez \<or> s = after_lemlib \<or> s = initial"
    by (auto split: if_splits)
  then show "declared (emitted s) = [] \<or> declared (emitted s) = [ez_setOdom_decl] \<or>
      declared (emitted s) = [lemlib_setOdom_decl]"
    by (auto simp: after_ez_def after_lemlib_def initial_def)
qed

theorem two_integrations_in_one_unit_fail_witness:
  "preprocess [ez_template_hpp, lemlib_hpp] =
     Inl [(''unnamed/part_000'', ''More than one type of Logger/Optional include used!'')] \<and>
   (\<exists>e. build [[ez_template_hpp], [ez_template_hpp, lemlib_hpp]] = Inl e) \<and>
   preprocess [ez_template_hpp, ez_template_hpp] = Inr after_ez \<and>
   (declared (emitted after_ez) = [] \<or> declared (emitted after_ez) = [ez_setOdom_decl] \<or>
    declared (emitted after_ez) = [lemlib_setOdom_decl])"
proof -
  have sub: "set [ez_template_hpp, lemlib_hpp] \<subseteq> {ez_template_hpp, lemlib_hpp}"
    and both: "ez_template_hpp \<in> set [ez_template_hpp, lemlib_hpp] \<and>
      lemlib_hpp \<in> set [ez_template_hpp, lemlib_hpp]"
    and mem: "[ez_template_hpp, lemlib_hpp] \<in> set [[ez_template_hpp], [ez_template_hpp, lemlib_hpp]]"
    by simp_all
  note w = two_integrations_in_one_unit_fail
    [where hs = "[ez_template_hpp, lemlib_hpp]"
       and tus = "[[ez_template_hpp], [ez_template_hpp, lemlib_hpp]]",
     THEN mp, OF sub, THEN conjunct1, THEN mp, OF both]
  from w [THEN conjunct1]
  have first: "preprocess [ez_template_hpp, lemlib_hpp] =
      Inl [(''unnamed/part_000'', ''More than one type of Logger/Optional include used!'')]"
    by (simp add: lemlib_hpp_def)
  have sub': "set [ez_template_hpp, ez_template_hpp] \<subseteq> {ez_template_hpp, lemlib_hpp}"
    by simp
  note v = two_integrations_in_one_unit_fail
    [where hs = "[ez_template_hpp, ez_template_hpp]" and s = after_ez,
     THEN mp, OF sub', THEN conjunct2, THEN mp, OF preprocess_ez_twice]
  from first w [THEN conjunct2, THEN mp, OF mem] preprocess_ez_twice v
  show ?thesis by (intro conjI)
qed

text \<open>
  C8, as stated, fails: with the LemLib header included first and the EZ-Template header
  second, the diagnostic is the message of the \<^verbatim>\<open>#error\<close> line, located in the
  EZ-Template header. Its location names EZ-Template, but neither its location nor its
  message names LemLib, the other integration of the conflict.
\<close>

theorem diagnostic_misses_first_integration:
  "preprocess [lemlib_hpp, ez_template_hpp] =
     Inl [(''mvlib/Optional/logger_optional_ez-template.hpp'',
           ''More than one type of Logger/Optional include used!'')] \<and>
   diagnostic_names
     (''mvlib/Optional/logger_optional_ez-template.hpp'',
      ''More than one type of Logger/Optional include used!'') ez_template_name \<and>
   \<not> diagnostic_names
     (''mvlib/Optional/logger_optional_ez-template.hpp'',
      ''More than one type of Logger/Optional include used!'') lemlib_name"
proof -
  have "preprocess [lemlib_hpp, ez_template_hpp] =
      Inl [(''mvlib/Optional/logger_optional_ez-template.hpp'',
            ''More than one type of Logger/Optional include used!'')]"
    using preprocess_lemlib_ez by (simp add: ez_template_hpp_def guard_message_def)
  moreover have "diagnostic_names
     (''mvlib/Optional/logger_optional_ez-template.hpp'',
      ''More than one type of Logger/Optional include used!'') ez_template_name"
    by code_simp
  moreover have "\<not> diagnostic_names
     (''mvlib/Optional/logger_optional_ez-template.hpp'',
      ''More than one type of Logger/Optional include used!'') lemlib_name"
    by code_simp
  ultimately show ?thesis by (intro conjI)
qed

text \<open>
  C8, amended: whenever a translation unit made of the two integration headers fails to
  preprocess, there is one diagnostic: the fixed, human-readable message
  \<^verbatim>\<open>More than one type of Logger/Optional include used!\<close>, located in the header that
  was included second (the one that is not the first header of the unit). The message
  reports that more than one integration header was included; the location identifies
  the second header only.
\<close>

theorem diagnostic_is_located_message:
  "set hs \<subseteq> {ez_template_hpp, lemlib_hpp} \<and> preprocess hs = Inl ds \<longrightarrow>
   ds = [(fst (if hd hs = ez_template_hpp then lemlib_hpp else ez_template_hpp),
          ''More than one type of Logger/Optional include used!'')]"
proof (intro impI, elim conjE)
  assume hs: "set hs \<subseteq> {ez_template_hpp, lemlib_hpp}" and fails: "preprocess hs = Inl ds"
  from preprocess_result [OF hs] fails
  have "ds = [(fst (if hd hs = ez_template_hpp then lemlib_hpp else ez_template_hpp), guard_message)]"
    by (auto split: if_splits)
  then show "ds = [(fst (if hd hs = ez_template_hpp then lemlib_hpp else ez_template_hpp),
      ''More than one type of Logger/Optional include used!'')]"
    by (simp add: guard_message_def)
qed

theorem diagnostic_is_located_message_witness:
  "preprocess [lemlib_hpp, ez_template_hpp] = Inl [(fst ez_template_hpp, guard_message)] \<and>
   [(fst ez_template_hpp, guard_message)] =
     [(''mvlib/Optional/logger_optional_ez-template.hpp'',
       ''More than one type of Logger/Optional include used!'')]"
proof -
  have "set [lemlib_hpp, ez_template_hpp] \<subseteq> {ez_template_hpp, lemlib_hpp}"
    by simp
  then have "set [lemlib_hpp, ez_template_hpp] \<subseteq> {ez_template_hpp, lemlib_hpp} \<and>
      preprocess [lemlib_hpp, ez_template_hpp] = Inl [(fst ez_template_hpp, guard_message)]"
    using preprocess_lemlib_ez by (rule conjI)
  from diagnostic_is_located_message
    [where hs = "[lemlib_hpp, ez_template_hpp]" and ds = "[(fst ez_template_hpp, guard_message)]",
     THEN mp, OF this]
  have "[(fst ez_template_hpp, guard_message)] =
     [(''mvlib/Optional/logger_optional_ez-template.hpp'',
       ''More than one type of Logger/Optional include used!'')]"
    by (simp add: headers_differ ez_template_hpp_def)
  with preprocess_lemlib_ez show ?thesis by (rule conjI)
qed

end
